theory Spec2Isabelle
  imports Main
begin

section \<open>The openseaSudoswapArb strategy\<close>

text \<open>
  A shallow embedding of \<^verbatim>\<open>src/strategies/openseaSudoswapArb.ts\<close>. The factory
  \<^verbatim>\<open>openseaSudoswapArb\<close> closes over two arrays, \<^verbatim>\<open>sudoPools\<close> and \<^verbatim>\<open>poolBids\<close>, and
  defines a number of async functions over them. The closure's variables are passed
  explicitly as a state record; an async function is the function from the state before
  to its result and the state after; a rejected promise is the left injection of a sum.
\<close>

subsection \<open>Data\<close>

type_synonym address = string

text \<open>
  Modelled from the spec: the source gives \<^verbatim>\<open>sudoPools\<close> and \<^verbatim>\<open>poolBids\<close> no element type
  (both are \<^verbatim>\<open>[]\<close>, lines 18-19) and declares no type for quotes, pools, events or actions.
  The records below follow section 3 of the specification: a quote is a price with its
  fee parameter; a PoolState has an address, the collection it trades, an optional
  current bid and the last synced block.
\<close>

record Quote =
  price :: int
  fee :: int

record PoolState =
  address :: address
  nftCollection :: address
  currentBid :: "Quote option"
  lastSyncedBlock :: nat

text \<open>
  Modelled from the spec: BlockEvent, ListingEvent and SubmitTransactionAction of section 3.
  The fields of a listing carry the prefix \<open>listing_\<close>, the fields of a transaction the
  prefix \<open>tx_\<close>, to keep them apart from the fields of a pool and of a quote.
\<close>

record BlockEvent =
  blockNumber :: nat
  newPoolAddresses :: "address set"
  touchedPoolAddresses :: "address set"

record ListingEvent =
  listing_nftCollection :: address
  listing_tokenId :: nat
  listing_paymentToken :: address
  listing_price :: int
  listing_chain :: string
  rawOrderReference :: string

record SubmitTransactionAction =
  tx_to :: address
  tx_data :: string
  tx_value :: int
  deadlineBlock :: nat

text \<open>
  The two enums of the comment at lines 39-54:
  \<^verbatim>\<open>Event = NewBlock | OpenseaOrder\<close> and \<^verbatim>\<open>Action = SubmitTx\<close>.
\<close>

datatype Event = NewBlock BlockEvent | OpenseaOrder ListingEvent

datatype Action = SubmitTx SubmitTransactionAction

text \<open>
  What \<^verbatim>\<open>processEvent\<close> can be handed at run time: any JavaScript value. The type
  annotation \<^verbatim>\<open>Event\<close> of its parameter is erased, so the model keeps every kind of value
  that \<^verbatim>\<open>typeof\<close> tells apart; an object carries an event. The payload of a number is
  kept as an integer only: \<^verbatim>\<open>typeof\<close> does not read it.
\<close>

datatype js_value =
    JsUndefined
  | JsNull
  | JsBoolean bool
  | JsNumber int
  | JsBigInt int
  | JsString string
  | JsSymbol string
  | JsFunction
  | JsObject Event

text \<open>The \<^verbatim>\<open>typeof\<close> operator of ECMAScript: eight possible tags, \<^verbatim>\<open>null\<close> is an object.\<close>

fun typeof :: "js_value \<Rightarrow> string" where
  "typeof JsUndefined = ''undefined''"
| "typeof JsNull = ''object''"
| "typeof (JsBoolean b) = ''boolean''"
| "typeof (JsNumber n) = ''number''"
| "typeof (JsBigInt n) = ''bigint''"
| "typeof (JsString s) = ''string''"
| "typeof (JsSymbol s) = ''symbol''"
| "typeof JsFunction = ''function''"
| "typeof (JsObject ev) = ''object''"

text \<open>
  The closure's mutable variables (lines 18-19). The comment at line 116 calls them maps;
  the source makes them arrays, so they are lists here.
\<close>

record Strategy_state =
  sudoPools :: "PoolState list"
  poolBids :: "(address \<times> Quote) list"

text \<open>Both arrays start empty.\<close>

definition initial_state :: Strategy_state where
  "initial_state = \<lparr>sudoPools = [], poolBids = []\<rparr>"

text \<open>
  The client is used through one call only, \<^verbatim>\<open>client.getBlockNumber()\<close>: it resolves to
  the chain head or rejects.
\<close>

datatype error = RpcFailure

record Client =
  getBlockNumber :: "error + nat"

text \<open>
  The calls that \<^verbatim>\<open>syncState\<close> makes, in order: the one call on the client (the only
  one that leaves the process) and the calls of the closure's own helpers.
\<close>

datatype call =
    ClientGetBlockNumber
  | CallGetNewPools nat nat
  | CallGetQuotesForPools "address list"
  | CallUpdateInternalPoolState

record Sync_result =
  outcome :: "error + unit"
  state_after :: Strategy_state
  calls :: "call list"

subsection \<open>Constants\<close>

definition PAIR_FACTORY_DEPLOYMENT_BLOCK :: nat where
  "PAIR_FACTORY_DEPLOYMENT_BLOCK = 14650730"

definition chunkSize :: nat where
  "chunkSize = 200"

subsection \<open>The helpers of the closure\<close>

text \<open>
  \<^verbatim>\<open>getQuotesForPools\<close> (lines 89-92) binds a local empty array and returns nothing:
  its promise resolves to \<^verbatim>\<open>undefined\<close>, here \<open>None\<close>.
\<close>

definition getQuotesForPools :: "address list \<Rightarrow> (address \<times> Quote option) list option" where
  "getQuotesForPools pools = (let quotes = ([] :: (address \<times> Quote option) list) in None)"

text \<open>\<^verbatim>\<open>getTouchedPools\<close> and \<^verbatim>\<open>getNewPools\<close> (lines 94-112) evaluate both bounds and return \<^verbatim>\<open>[]\<close>.\<close>

definition getTouchedPools :: "nat \<Rightarrow> nat \<Rightarrow> address list" where
  "getTouchedPools fromBlock toBlock = []"

definition getNewPools :: "nat \<Rightarrow> nat \<Rightarrow> address list" where
  "getNewPools fromBlock toBlock = []"

text \<open>\<^verbatim>\<open>updateInternalPoolState\<close> (lines 115-118) takes no parameter and has an empty body.\<close>

definition updateInternalPoolState ::
  "(address \<times> Quote option) list option \<Rightarrow> Strategy_state \<Rightarrow> Strategy_state" where
  "updateInternalPoolState poolsAndQuotes st = st"

text \<open>\<^verbatim>\<open>buildArbTransaction\<close> (lines 82-86) has an empty body: it resolves to \<^verbatim>\<open>undefined\<close>.\<close>

definition buildArbTransaction :: "Strategy_state \<Rightarrow> Strategy_state \<times> Action option" where
  "buildArbTransaction st = (st, None)"

subsection \<open>syncState\<close>

text \<open>\<^verbatim>\<open>xs.slice(i, j)\<close> for \<open>0 \<le> i \<le> j\<close>.\<close>

definition slice :: "'a list \<Rightarrow> nat \<Rightarrow> nat \<Rightarrow> 'a list" where
  "slice xs i j = take (j - i) (drop i xs)"

text \<open>
  The loop of lines 32-36,
  \<^verbatim>\<open>for (let i = 0; i < poolAddresses.length; i += chunkSize)\<close>,
  as a recursion on \<open>i\<close>; the state and the calls made so far are threaded through.
\<close>

function syncChunks ::
  "address list \<Rightarrow> nat \<Rightarrow> Strategy_state \<times> call list \<Rightarrow> Strategy_state \<times> call list" where
  "syncChunks poolAddresses i (st, tr) =
     (if i < length poolAddresses then
        let addresses = slice poolAddresses i (i + chunkSize);
            quotes = getQuotesForPools addresses;
            st' = updateInternalPoolState quotes st
        in syncChunks poolAddresses (i + chunkSize)
             (st', tr @ [CallGetQuotesForPools addresses, CallUpdateInternalPoolState])
      else (st, tr))"
  by pat_completeness auto
termination
  by (relation "measure (\<lambda>(poolAddresses, i, s). length poolAddresses - i)")
     (auto simp: chunkSize_def)

declare syncChunks.simps [simp del]

text \<open>
  \<^verbatim>\<open>syncState\<close> (lines 21-37). A rejection of \<^verbatim>\<open>client.getBlockNumber()\<close> is not caught,
  so it rejects \<^verbatim>\<open>syncState\<close> at line 25, before anything else is called.
\<close>

definition syncState :: "Client \<Rightarrow> Strategy_state \<Rightarrow> Sync_result" where
  "syncState client st =
     (let fromBlock = PAIR_FACTORY_DEPLOYMENT_BLOCK in
      case getBlockNumber client of
        Inl e \<Rightarrow> \<lparr>outcome = Inl e, state_after = st, calls = [ClientGetBlockNumber]\<rparr>
      | Inr toBlock \<Rightarrow>
          let poolAddresses = getNewPools fromBlock toBlock;
              res = syncChunks poolAddresses 0
                      (st, [ClientGetBlockNumber, CallGetNewPools fromBlock toBlock])
          in \<lparr>outcome = Inr (), state_after = fst res, calls = snd res\<rparr>)"

subsection \<open>Event processing\<close>

text \<open>
  \<^verbatim>\<open>processEvent\<close> (lines 56-62): a switch on \<^verbatim>\<open>typeof event\<close> with the single case
  \<^verbatim>\<open>'NewBlock'\<close>, whose body is empty; control then leaves the function, which resolves
  to \<^verbatim>\<open>undefined\<close>.
\<close>

definition processEvent :: "Strategy_state \<Rightarrow> js_value \<Rightarrow> Strategy_state \<times> Action option" where
  "processEvent st event =
     (if typeof event = ''NewBlock'' then (st, None) else (st, None))"

text \<open>
  \<^verbatim>\<open>processOrderEvent\<close> (lines 66-72) and \<^verbatim>\<open>processNewBlockEvent\<close> (lines 75-79): the
  bodies hold comments only.
\<close>

definition processOrderEvent ::
  "Strategy_state \<Rightarrow> ListingEvent \<Rightarrow> Strategy_state \<times> Action option" where
  "processOrderEvent st event = (st, None)"

definition processNewBlockEvent ::
  "Strategy_state \<Rightarrow> BlockEvent \<Rightarrow> Strategy_state \<times> Action option" where
  "processNewBlockEvent st event = (st, None)"

subsection \<open>The factory\<close>

text \<open>
  A JavaScript object is the list of its properties, in order. The factory (lines 7-121)
  creates the closure's state and returns \<^verbatim>\<open>{ syncState }\<close> (line 120).
\<close>

datatype member = AsyncFunction "Strategy_state \<Rightarrow> Sync_result"

definition openseaSudoswapArb :: "Client \<Rightarrow> Strategy_state \<times> (string \<times> member) list" where
  "openseaSudoswapArb client = (initial_state, [(''syncState'', AsyncFunction (syncState client))])"

subsection \<open>Sequences of operations\<close>

text \<open>
  Every function of the closure is async and awaited, so calls on one strategy run one
  after another, each to completion. An operation is one such call; \<open>run\<close> performs a
  list of them from left to right and returns the closure's state at the end.
\<close>

datatype operation =
    Sync Client
  | Process js_value
  | ProcessOrder ListingEvent
  | ProcessNewBlock BlockEvent

fun step :: "Strategy_state \<Rightarrow> operation \<Rightarrow> Strategy_state" where
  "step st (Sync client) = state_after (syncState client st)"
| "step st (Process event) = fst (processEvent st event)"
| "step st (ProcessOrder event) = fst (processOrderEvent st event)"
| "step st (ProcessNewBlock event) = fst (processNewBlockEvent st event)"

definition run :: "Strategy_state \<Rightarrow> operation list \<Rightarrow> Strategy_state" where
  "run st ops = foldl step st ops"

subsection \<open>Views of the state\<close>


text \<open>The state with the pools that have no quote taken out.\<close>

definition withoutAbsentQuotes :: "Strategy_state \<Rightarrow> Strategy_state" where
  "withoutAbsentQuotes st = st\<lparr>sudoPools := filter (\<lambda>p. currentBid p \<noteq> None) (sudoPools st)\<rparr>"

section \<open>Properties\<close>

subsection \<open>Helper lemmas\<close>

lemma syncChunks_state: "fst (syncChunks poolAddresses i s) = fst s"
proof (induction poolAddresses i s rule: syncChunks.induct)
  case (1 poolAddresses i st tr)
  show ?case
  proof (cases "i < length poolAddresses")
    case True
    with "1" show ?thesis
      by (subst syncChunks.simps) (simp add: Let_def updateInternalPoolState_def)
  next
    case False
    then show ?thesis
      by (subst syncChunks.simps) simp
  qed
qed

lemma syncChunks_no_pools: "syncChunks [] i s = s"
  by (cases s) (simp add: syncChunks.simps)

lemma syncState_state: "state_after (syncState client st) = st"
  by (simp add: syncState_def Let_def syncChunks_state split: sum.split)

lemma syncState_calls:
  "calls (syncState client st) =
     (case getBlockNumber client of
        Inl e \<Rightarrow> [ClientGetBlockNumber]
      | Inr head \<Rightarrow> [ClientGetBlockNumber, CallGetNewPools PAIR_FACTORY_DEPLOYMENT_BLOCK head])"
  by (simp add: syncState_def Let_def getNewPools_def syncChunks_no_pools split: sum.split)

lemma syncState_rejects_at_once:
  "getBlockNumber client = Inl e \<Longrightarrow>
     outcome (syncState client st) = Inl e
     \<and> calls (syncState client st) = [ClientGetBlockNumber]
     \<and> state_after (syncState client st) = st"
  by (simp add: syncState_def)

lemma step_state: "step st op = st"
  by (cases op) (simp_all add: syncState_state processEvent_def processOrderEvent_def
        processNewBlockEvent_def)

lemma run_state: "run st ops = st"
  unfolding run_def by (induction ops) (simp_all add: step_state)

subsection \<open>processEvent\<close>

text \<open>
  C9. For every value handed to \<^verbatim>\<open>processEvent\<close>, the function resolves to \<^verbatim>\<open>undefined\<close>
  (no action) and leaves the state as it was; \<^verbatim>\<open>typeof\<close> yields one of the eight
  primitive-type tags, never \<^verbatim>\<open>'NewBlock'\<close>, so the switch's single case is never taken.
\<close>

theorem processEvent_undefined_no_mutation:
  "processEvent st event = (st, None)
   \<and> typeof event \<noteq> ''NewBlock''
   \<and> typeof event \<in> {''undefined'', ''object'', ''boolean'', ''number'', ''bigint'',
                      ''string'', ''symbol'', ''function''}"
  by (cases event) (simp_all add: processEvent_def)

subsection \<open>syncState\<close>

text \<open>
  C10. For every client, whatever chain head it reports (or if its call fails),
  \<^verbatim>\<open>syncState\<close> leaves \<^verbatim>\<open>sudoPools\<close> and \<^verbatim>\<open>poolBids\<close> as they were, and empty when run on
  the factory's fresh state: \<^verbatim>\<open>getNewPools\<close> returns the empty list for every block range,
  so the loop makes no call of \<^verbatim>\<open>getQuotesForPools\<close> or \<^verbatim>\<open>updateInternalPoolState\<close>, and
  the one call that leaves the process is \<^verbatim>\<open>client.getBlockNumber()\<close>.
\<close>

theorem syncState_frame:
  "getNewPools fromBlock toBlock = []
   \<and> state_after (syncState client st) = st
   \<and> sudoPools (state_after (syncState client initial_state)) = []
   \<and> poolBids (state_after (syncState client initial_state)) = []
   \<and> calls (syncState client st) =
       (case getBlockNumber client of
          Inl e \<Rightarrow> [ClientGetBlockNumber]
        | Inr head \<Rightarrow> [ClientGetBlockNumber, CallGetNewPools PAIR_FACTORY_DEPLOYMENT_BLOCK head])
   \<and> CallUpdateInternalPoolState \<notin> set (calls (syncState client st))
   \<and> CallGetQuotesForPools addresses \<notin> set (calls (syncState client st))"
  by (simp add: getNewPools_def syncState_state syncState_calls initial_state_def
           split: sum.split)

text \<open>
  C6. A second \<^verbatim>\<open>syncState\<close> with the same client, nothing in between, leaves the state
  equal to what the first one left: the list of pool entries has the same length (no
  entry is duplicated), the pool addresses are pairwise different after the second call
  exactly when they were after the first, and on the factory's fresh state they are.
\<close>

theorem syncState_idempotent:
  "state_after (syncState client (state_after (syncState client st)))
     = state_after (syncState client st)
   \<and> length (sudoPools (state_after (syncState client (state_after (syncState client st)))))
     = length (sudoPools (state_after (syncState client st)))
   \<and> distinct (map address (sudoPools (state_after (syncState client (state_after (syncState client st))))))
     = distinct (map address (sudoPools (state_after (syncState client st))))
   \<and> distinct (map address
        (sudoPools (state_after (syncState client (state_after (syncState client initial_state))))))
   \<and> run initial_state [Sync client, Sync client] = run initial_state [Sync client]"
  by (simp add: syncState_state initial_state_def run_state)

subsection \<open>The pool entries across operations\<close>



subsection \<open>processOrderEvent\<close>

text \<open>
  C4. A pool with no quote is never matched, for every listing and every snapshot, also
  one that holds quoted pools beside it: the action \<^verbatim>\<open>processOrderEvent\<close> produces is the
  one it produces when the pools without a quote are taken out of the snapshot. And when
  every pool of the listing's collection lacks a quote, it produces no action and leaves
  the state as it was.
\<close>

theorem processOrderEvent_excludes_absent_quotes:
  "snd (processOrderEvent st event) = snd (processOrderEvent (withoutAbsentQuotes st) event)
   \<and> (list_all (\<lambda>p. nftCollection p = listing_nftCollection event \<longrightarrow> currentBid p = None)
         (sudoPools st)
       \<longrightarrow> processOrderEvent st event = (st, None))"
  by (simp add: processOrderEvent_def)

text \<open>
  Its witness: a snapshot with a quoted and a quote-less pool of the listing's collection,
  for the first part; a snapshot whose only pool of the collection has no quote, for the
  second.
\<close>

theorem processOrderEvent_excludes_absent_quotes_witness:
  "snd (processOrderEvent
          \<lparr>sudoPools = [\<lparr>address = ''0xP1'', nftCollection = ''0xC1'', currentBid = None,
                          lastSyncedBlock = 14650735\<rparr>,
                        \<lparr>address = ''0xP2'', nftCollection = ''0xC1'',
                          currentBid = Some \<lparr>price = 10, fee = 0\<rparr>,
                          lastSyncedBlock = 14650735\<rparr>], poolBids = []\<rparr>
          \<lparr>listing_nftCollection = ''0xC1'', listing_tokenId = 7, listing_paymentToken = ''ETH'',
            listing_price = 1, listing_chain = ''ethereum'', rawOrderReference = ''order-1''\<rparr>)
     = snd (processOrderEvent
          \<lparr>sudoPools = [\<lparr>address = ''0xP2'', nftCollection = ''0xC1'',
                          currentBid = Some \<lparr>price = 10, fee = 0\<rparr>,
                          lastSyncedBlock = 14650735\<rparr>], poolBids = []\<rparr>
          \<lparr>listing_nftCollection = ''0xC1'', listing_tokenId = 7, listing_paymentToken = ''ETH'',
            listing_price = 1, listing_chain = ''ethereum'', rawOrderReference = ''order-1''\<rparr>)
   \<and> list_all (\<lambda>p. nftCollection p = ''0xC1'' \<longrightarrow> currentBid p = None)
       [\<lparr>address = ''0xP1'', nftCollection = ''0xC1'', currentBid = None, lastSyncedBlock = 14650735\<rparr>]
   \<and> processOrderEvent
       \<lparr>sudoPools = [\<lparr>address = ''0xP1'', nftCollection = ''0xC1'', currentBid = None,
                       lastSyncedBlock = 14650735\<rparr>], poolBids = []\<rparr>
       \<lparr>listing_nftCollection = ''0xC1'', listing_tokenId = 7, listing_paymentToken = ''ETH'',
         listing_price = 1, listing_chain = ''ethereum'', rawOrderReference = ''order-1''\<rparr>
     = (\<lparr>sudoPools = [\<lparr>address = ''0xP1'', nftCollection = ''0xC1'', currentBid = None,
                        lastSyncedBlock = 14650735\<rparr>], poolBids = []\<rparr>, None)"
  using processOrderEvent_excludes_absent_quotes
    [of "\<lparr>sudoPools = [\<lparr>address = ''0xP1'', nftCollection = ''0xC1'', currentBid = None,
                         lastSyncedBlock = 14650735\<rparr>,
                       \<lparr>address = ''0xP2'', nftCollection = ''0xC1'',
                         currentBid = Some \<lparr>price = 10, fee = 0\<rparr>,
                         lastSyncedBlock = 14650735\<rparr>], poolBids = []\<rparr>"
        "\<lparr>listing_nftCollection = ''0xC1'', listing_tokenId = 7, listing_paymentToken = ''ETH'',
           listing_price = 1, listing_chain = ''ethereum'', rawOrderReference = ''order-1''\<rparr>"]
    processOrderEvent_excludes_absent_quotes
    [of "\<lparr>sudoPools = [\<lparr>address = ''0xP1'', nftCollection = ''0xC1'', currentBid = None,
                         lastSyncedBlock = 14650735\<rparr>], poolBids = []\<rparr>"
        "\<lparr>listing_nftCollection = ''0xC1'', listing_tokenId = 7, listing_paymentToken = ''ETH'',
           listing_price = 1, listing_chain = ''ethereum'', rawOrderReference = ''order-1''\<rparr>"]
  by (simp add: withoutAbsentQuotes_def)






subsection \<open>processNewBlockEvent\<close>




subsection \<open>The strategy's surface\<close>

text \<open>
  C8. The object the factory returns has one property, \<^verbatim>\<open>syncState\<close>; it has no
  property \<^verbatim>\<open>processEvent\<close>.
\<close>

theorem openseaSudoswapArb_returns_syncState_only:
  "map fst (snd (openseaSudoswapArb client)) = [''syncState'']
   \<and> map_of (snd (openseaSudoswapArb client)) ''syncState''
       = Some (AsyncFunction (syncState client))
   \<and> map_of (snd (openseaSudoswapArb client)) ''processEvent'' = None
   \<and> fst (openseaSudoswapArb client) = initial_state"
  by (simp add: openseaSudoswapArb_def)

end
